theory Spec2Isabelle
  imports Main "HOL-Library.Sublist"
begin

section \<open>The background page of the extension and one connector\<close>

text \<open>
  The development embeds \<^verbatim>\<open>src/core/background/extension.js\<close> (class
  \<^verbatim>\<open>Extension\<close>) and \<^verbatim>\<open>src/connectors/google-play.js\<close>.  The extension
  object is a record; every call it makes to a collaborator whose module is not part of
  the sources (\<^verbatim>\<open>Notifications\<close>, \<^verbatim>\<open>GA\<close>, \<^verbatim>\<open>browser.tabs\<close>,
  \<^verbatim>\<open>console\<close>) is appended to a log of calls, in the order the calls are made.
  A JavaScript exception is the left injection of a sum type.
\<close>

subsection \<open>Songs, connectors, controllers\<close>

text \<open>
  Of a \<^verbatim>\<open>Song\<close> the extension reads \<^verbatim>\<open>song.flags.isReplaying\<close> only; artist
  and track stand for the rest of the object.
\<close>

record song_flags =
  isReplaying :: bool

record song =
  song_artist :: string
  song_track :: string
  flags :: song_flags

record connector =
  label :: string

text \<open>
  A controller as the extension sees it: the field \<^verbatim>\<open>tabId\<close> and the results of
  \<^verbatim>\<open>getCurrentSong()\<close> (a song or \<^verbatim>\<open>null\<close>) and \<^verbatim>\<open>getConnector()\<close>.
\<close>

record controller =
  tabId :: int
  getCurrentSong :: "song option"
  getConnector :: connector

text \<open>
  The four constants of \<^verbatim>\<open>object/controller-event\<close>.  The module is not among the
  sources, so their values are a parameter of everything that switches on an event.
\<close>

record controller_event =
  ControllerReset :: int
  SongNowPlaying :: int
  SongScrobbled :: int
  SongUnrecognized :: int

subsection \<open>Calls to collaborators\<close>

text \<open>The URL that \<^verbatim>\<open>browser.runtime.getURL\<close> returns for a path inside the extension.\<close>

datatype url = RuntimeURL string

text \<open>What a click handler passed to a notification does when it is run.\<close>

datatype action =
    OpenTab int
  | CreateTab url

datatype effect =
    ClearNowPlaying song
  | ShowNowPlaying song action
  | ShowSongNotRecognized "song option" action
  | ShowAuthNotification action
  | TabsCreate url
  | GAEvent string string string
  | GAPageview string
  | ConsoleLog string
  | ConsoleWarn string
  | StorageDebugLog

datatype error = TypeError

subsection \<open>The extension object\<close>

record notification_data =
  authDisplayCount :: "int option"

record core_data =
  appVersion :: "string option"

text \<open>
  Modelled from the spec: \<^verbatim>\<open>object/tab-worker\<close> is not among the sources.  The tab
  registry of the specification owns the machines (controllers) of the tabs, keyed by tab
  identifier.
\<close>

record tab_worker =
  tabControllers :: "int \<rightharpoonup> controller"

record extension =
  isSessionActive :: bool
  extVersion :: string
  notificationStorage :: notification_data
  coreStorage :: core_data
  tabWorker :: tab_worker
  calls :: "effect list"

definition call :: "effect \<Rightarrow> extension \<Rightarrow> extension" where
  "call e ext = ext\<lparr>calls := calls ext @ [e]\<rparr>"

text \<open>
  The constructor: the session is not active, the version is the one of the manifest, the
  two storages hold what the browser has persisted, and no tab is registered.
\<close>

definition newExtension :: "string \<Rightarrow> notification_data \<Rightarrow> core_data \<Rightarrow> extension" where
  "newExtension manifestVersion notifications core =
     \<lparr>isSessionActive = False,
      extVersion = manifestVersion,
      notificationStorage = notifications,
      coreStorage = core,
      tabWorker = \<lparr>tabControllers = Map.empty\<rparr>,
      calls = []\<rparr>"

subsection \<open>\<^verbatim>\<open>processControllerEvent\<close>\<close>

text \<open>
  The \<^verbatim>\<open>switch\<close> compares the event with the four constants in the order of the
  source and runs the first case that is strictly equal; there is no default case.
  Reading \<^verbatim>\<open>song.flags\<close> of \<^verbatim>\<open>null\<close> throws a \<^verbatim>\<open>TypeError\<close>.
\<close>

definition processControllerEvent ::
    "controller_event \<Rightarrow> extension \<Rightarrow> controller \<Rightarrow> int \<Rightarrow> error + extension" where
  "processControllerEvent K ext ctrl event =
     (if event = ControllerReset K then
        (case getCurrentSong ctrl of
           None \<Rightarrow> Inr ext
         | Some song \<Rightarrow> Inr (call (ClearNowPlaying song) ext))
      else if event = SongNowPlaying K then
        (case getCurrentSong ctrl of
           None \<Rightarrow> Inl TypeError
         | Some song \<Rightarrow>
             if isReplaying (flags song) then Inr ext
             else Inr (call (ShowNowPlaying song (OpenTab (tabId ctrl))) ext))
      else if event = SongScrobbled K then
        Inr (call (GAEvent ''core'' ''scrobble'' (label (getConnector ctrl))) ext)
      else if event = SongUnrecognized K then
        Inr (call (ShowSongNotRecognized (getCurrentSong ctrl) (OpenTab (tabId ctrl)))
               (call (ConsoleLog ''2222'') ext))
      else Inr ext)"

subsection \<open>The session flag\<close>

definition setSessionActive :: "extension \<Rightarrow> extension" where
  "setSessionActive ext =
     (if isSessionActive ext then ext
      else call (GAPageview (''/background-injected?version='' @ extVersion ext))
             (ext\<lparr>isSessionActive := True\<rparr>))"

text \<open>The hook \<^verbatim>\<open>tabWorker.onConnectorActivated\<close> that the constructor installs.\<close>

definition onConnectorActivated :: "extension \<Rightarrow> connector \<Rightarrow> extension" where
  "onConnectorActivated ext c = setSessionActive (call (GAEvent ''core'' ''inject'' (label c)) ext)"

subsection \<open>The authentication notification\<close>






subsection \<open>Asynchronous calls\<close>













subsection \<open>The tab registry\<close>

text \<open>
  The hook \<^verbatim>\<open>tabWorker.onControllerEvent\<close> that the constructor installs: every event
  of a controller goes to \<^verbatim>\<open>processControllerEvent\<close>.
\<close>

definition onControllerEvent ::
    "controller_event \<Rightarrow> extension \<Rightarrow> controller \<Rightarrow> int \<Rightarrow> error + extension" where
  "onControllerEvent K ext ctrl event = processControllerEvent K ext ctrl event"

text \<open>Events of one controller are handed to the hook in emission order; an exception ends the delivery.\<close>

fun emitAll :: "controller_event \<Rightarrow> controller \<Rightarrow> int list \<Rightarrow> extension \<Rightarrow> error + extension" where
  "emitAll K ctrl [] ext = Inr ext"
| "emitAll K ctrl (event # events) ext =
     (case onControllerEvent K ext ctrl event of
        Inl e \<Rightarrow> Inl e
      | Inr ext' \<Rightarrow> emitAll K ctrl events ext')"

text \<open>
  Modelled from the spec: the teardown of a machine, which \<^verbatim>\<open>object/tab-worker\<close> and the
  controller (not among the sources) implement.  A machine that is detached is forced to
  emit a reset event if it has a current item, and no event otherwise.
\<close>

definition emittedOnDetach :: "controller_event \<Rightarrow> controller \<Rightarrow> int list" where
  "emittedOnDetach K ctrl =
     (case getCurrentSong ctrl of None \<Rightarrow> [] | Some item \<Rightarrow> [ControllerReset K])"

text \<open>
  Modelled from the spec: the destruction of the machine of a tab (in
  \<^verbatim>\<open>object/tab-worker\<close>, not among the sources): the registry no longer has it.
\<close>

definition destroy :: "int \<Rightarrow> extension \<Rightarrow> extension" where
  "destroy tab ext =
     ext\<lparr>tabWorker := (tabWorker ext)\<lparr>tabControllers := (tabControllers (tabWorker ext))(tab := None)\<rparr>\<rparr>"

text \<open>
  Modelled from the spec: \<^verbatim>\<open>detach\<close> of the tab registry (\<^verbatim>\<open>processTabRemove\<close> of
  \<^verbatim>\<open>object/tab-worker\<close>, not among the sources).  The machine of the tab emits its
  events while it is still registered; it is destroyed afterwards.  A tab without a
  machine has nothing to tear down.
\<close>

definition detach :: "controller_event \<Rightarrow> extension \<Rightarrow> int \<Rightarrow> error + extension" where
  "detach K ext tab =
     (case tabControllers (tabWorker ext) tab of
        None \<Rightarrow> Inr ext
      | Some ctrl \<Rightarrow>
          (case emitAll K ctrl (emittedOnDetach K ctrl) ext of
             Inl e \<Rightarrow> Inl e
           | Inr ext' \<Rightarrow> Inr (destroy tab ext')))"

text \<open>
  Modelled from the spec: \<^verbatim>\<open>processTabRemove\<close> of \<^verbatim>\<open>object/tab-worker\<close> (not
  among the sources) is the \<^verbatim>\<open>detach\<close> of the tab registry, called when a tab is closed.
\<close>

definition processTabRemove :: "controller_event \<Rightarrow> extension \<Rightarrow> int \<Rightarrow> error + extension" where
  "processTabRemove K ext tab = detach K ext tab"

text \<open>
  Modelled from the spec: \<^verbatim>\<open>route\<close> of the tab registry (\<^verbatim>\<open>processMessage\<close> of
  \<^verbatim>\<open>object/tab-worker\<close>, not among the sources).  A message for a tab that has a
  machine is forwarded to it; a message for an unknown tab is dropped.  What a machine
  does with a message (its new state and the events it emits) is the parameter
  \<open>machine\<close>.
\<close>

definition route ::
    "controller_event \<Rightarrow> (controller \<Rightarrow> 'm \<Rightarrow> controller \<times> int list) \<Rightarrow>
     extension \<Rightarrow> int \<Rightarrow> 'm \<Rightarrow> error + extension" where
  "route K machine ext tab message =
     (case tabControllers (tabWorker ext) tab of
        None \<Rightarrow> Inr ext
      | Some ctrl \<Rightarrow>
          (case machine ctrl message of
             (ctrl', events) \<Rightarrow>
               emitAll K ctrl' events
                 (ext\<lparr>tabWorker :=
                    (tabWorker ext)\<lparr>tabControllers := (tabControllers (tabWorker ext))(tab \<mapsto> ctrl')\<rparr>\<rparr>)))"

text \<open>
  Modelled from the spec: \<^verbatim>\<open>processMessage\<close> of \<^verbatim>\<open>object/tab-worker\<close> (not among
  the sources) is the \<^verbatim>\<open>route\<close> of the tab registry; the message is the type of the
  request with its data.
\<close>

definition processMessage ::
    "controller_event \<Rightarrow> (controller \<Rightarrow> string \<times> 'd \<Rightarrow> controller \<times> int list) \<Rightarrow>
     extension \<Rightarrow> int \<Rightarrow> string \<Rightarrow> 'd \<Rightarrow> error + extension" where
  "processMessage K machine ext tab type data = route K machine ext tab (type, data)"

subsection \<open>The listeners of \<^verbatim>\<open>initializeListeners\<close>\<close>

record 'd request =
  request_tabId :: int
  request_type :: string
  request_data :: 'd

text \<open>\<^verbatim>\<open>browser.runtime.onMessage\<close>: the three fields of the request go to the tab worker.\<close>

definition runtime_onMessage ::
    "controller_event \<Rightarrow> (controller \<Rightarrow> string \<times> 'd \<Rightarrow> controller \<times> int list) \<Rightarrow>
     extension \<Rightarrow> 'd request \<Rightarrow> error + extension" where
  "runtime_onMessage K machine ext request =
     processMessage K machine ext (request_tabId request) (request_type request) (request_data request)"

text \<open>\<^verbatim>\<open>browser.tabs.onRemoved\<close>: the identifier of the closed tab goes to the tab worker.\<close>

definition tabs_onRemoved :: "controller_event \<Rightarrow> extension \<Rightarrow> int \<Rightarrow> error + extension" where
  "tabs_onRemoved K ext tab = processTabRemove K ext tab"

subsection \<open>The Google Play connector\<close>

text \<open>
  What the connector reads from the page: the results of \<^verbatim>\<open>Connector.getArtist()\<close> and
  \<^verbatim>\<open>Connector.getTrack()\<close> of the base connector, each a string or \<^verbatim>\<open>null\<close>.
\<close>

record playback_sample =
  getArtist :: "string option"
  getTrack :: "string option"

definition isScrobblingAllowed :: "playback_sample \<Rightarrow> bool" where
  "isScrobblingAllowed sample \<longleftrightarrow> getArtist sample \<noteq> Some ''Subscribe to go ad-free''"

text \<open>
  The eligibility policy in the words of the specification: a sample is ineligible when
  its artist or its track title contains a substring of the denylist.
\<close>

definition includes_str :: "string option \<Rightarrow> string \<Rightarrow> bool" where
  "includes_str field needle = (case field of None \<Rightarrow> False | Some str \<Rightarrow> sublist needle str)"

definition denylisted :: "string list \<Rightarrow> playback_sample \<Rightarrow> bool" where
  "denylisted denylist sample \<longleftrightarrow>
     list_ex (\<lambda>needle. includes_str (getArtist sample) needle \<or> includes_str (getTrack sample) needle) denylist"

definition adPlaceholder :: string where
  "adPlaceholder = ''Subscribe to go ad-free''"

subsection \<open>Concrete values\<close>

definition K0 :: controller_event where
  "K0 = \<lparr>ControllerReset = 0, SongNowPlaying = 1, SongScrobbled = 2, SongUnrecognized = 3\<rparr>"

definition song0 :: song where
  "song0 = \<lparr>song_artist = ''Boards of Canada'', song_track = ''Roygbiv'',
            flags = \<lparr>isReplaying = False\<rparr>\<rparr>"

definition ctrl0 :: controller where
  "ctrl0 = \<lparr>tabId = 7, getCurrentSong = Some song0,
            getConnector = \<lparr>label = ''Google Play Music''\<rparr>\<rparr>"

definition ext0 :: extension where
  "ext0 = newExtension ''2.30.0'' \<lparr>authDisplayCount = None\<rparr> \<lparr>appVersion = None\<rparr>"

definition ext1 :: extension where
  "ext1 = ext0\<lparr>tabWorker := \<lparr>tabControllers = [7 \<mapsto> ctrl0]\<rparr>\<rparr>"

definition idle :: "controller \<Rightarrow> string \<times> unit \<Rightarrow> controller \<times> int list" where
  "idle ctrl message = (ctrl, [])"

definition adInTrack :: playback_sample where
  "adInTrack = \<lparr>getArtist = Some ''Google Play Music'', getTrack = Some ''Subscribe to go ad-free''\<rparr>"

definition adInsideArtist :: playback_sample where
  "adInsideArtist = \<lparr>getArtist = Some ''Subscribe to go ad-free today'', getTrack = Some ''Advertisement''\<rparr>"

definition adAsArtist :: playback_sample where
  "adAsArtist = \<lparr>getArtist = Some ''Subscribe to go ad-free'', getTrack = None\<rparr>"






section \<open>Properties\<close>

text \<open>
  C9.  On a \<^verbatim>\<open>ControllerReset\<close> event the now-playing notification is cleared exactly
  when the controller has a current song: with a song, the single call made is
  \<^verbatim>\<open>Notifications.clearNowPlaying(song)\<close>; with \<^verbatim>\<open>null\<close>, nothing is called,
  the extension is unchanged and nothing is thrown.
\<close>

theorem controller_reset_clears_iff_song:
  "processControllerEvent K ext ctrl (ControllerReset K) =
     (case getCurrentSong ctrl of
        None \<Rightarrow> Inr ext
      | Some song \<Rightarrow> Inr (ext\<lparr>calls := calls ext @ [ClearNowPlaying song]\<rparr>))"
  by (simp add: processControllerEvent_def call_def split: option.split)

text \<open>
  C2.  On a \<^verbatim>\<open>SongNowPlaying\<close> event (a constant distinct from
  \<^verbatim>\<open>ControllerReset\<close>, the case tested before it) with a current song, the
  now-playing notification is shown, with a click handler that opens the controller's tab,
  if and only if \<^verbatim>\<open>flags.isReplaying\<close> of that song is false; for a replaying
  song nothing is called and the extension is unchanged.  Without a current song there is
  no flag to read: the code throws and shows nothing.
\<close>

theorem now_playing_shown_iff_not_replaying:
  assumes "SongNowPlaying K \<noteq> ControllerReset K"
  shows "processControllerEvent K ext ctrl (SongNowPlaying K) =
     (case getCurrentSong ctrl of
        None \<Rightarrow> Inl TypeError
      | Some song \<Rightarrow>
          Inr (if isReplaying (flags song) then ext
               else ext\<lparr>calls := calls ext @ [ShowNowPlaying song (OpenTab (tabId ctrl))]\<rparr>))"
  using assms by (simp add: processControllerEvent_def call_def split: option.split)

theorem now_playing_shown_iff_not_replaying_witness:
  "SongNowPlaying K0 \<noteq> ControllerReset K0 \<and>
   processControllerEvent K0 ext0 ctrl0 1 =
     Inr (ext0\<lparr>calls := [ShowNowPlaying song0 (OpenTab 7)]\<rparr>) \<and>
   processControllerEvent K0 ext0 (ctrl0\<lparr>getCurrentSong := Some (song0\<lparr>flags := \<lparr>isReplaying = True\<rparr>\<rparr>)\<rparr>) 1 =
     Inr ext0"
  using now_playing_shown_iff_not_replaying [of K0 ext0 ctrl0]
    now_playing_shown_iff_not_replaying [of K0 ext0 "ctrl0\<lparr>getCurrentSong := Some (song0\<lparr>flags := \<lparr>isReplaying = True\<rparr>\<rparr>)\<rparr>"]
  by (simp add: K0_def ext0_def ctrl0_def song0_def newExtension_def)

text \<open>
  C6.  On a \<^verbatim>\<open>SongScrobbled\<close> event (a constant distinct from the two tested before
  it) exactly one call is made: the analytics event \<^verbatim>\<open>('core', 'scrobble', label)\<close>
  whose label is the one of the connector of the controller.
\<close>

theorem scrobbled_sends_one_analytics_event:
  assumes "SongScrobbled K \<noteq> ControllerReset K" and "SongScrobbled K \<noteq> SongNowPlaying K"
  shows "processControllerEvent K ext ctrl (SongScrobbled K) =
     Inr (ext\<lparr>calls := calls ext @ [GAEvent ''core'' ''scrobble'' (label (getConnector ctrl))]\<rparr>)"
  using assms by (simp add: processControllerEvent_def call_def)

theorem scrobbled_sends_one_analytics_event_witness:
  "SongScrobbled K0 \<noteq> ControllerReset K0 \<and> SongScrobbled K0 \<noteq> SongNowPlaying K0 \<and>
   processControllerEvent K0 ext0 ctrl0 2 =
     Inr (ext0\<lparr>calls := [GAEvent ''core'' ''scrobble'' ''Google Play Music'']\<rparr>)"
  using scrobbled_sends_one_analytics_event [of K0 ext0 ctrl0]
  by (simp add: K0_def ext0_def ctrl0_def newExtension_def)

text \<open>
  C5.  On a \<^verbatim>\<open>SongUnrecognized\<close> event (a constant distinct from the three tested
  before it) the song-not-recognized notification is shown for the current song of the
  controller (which may be \<^verbatim>\<open>null\<close>), with a click handler that opens the tab of
  the controller.  The only other call is a line on the console.
\<close>

theorem unrecognized_shows_not_recognized:
  assumes "SongUnrecognized K \<noteq> ControllerReset K"
    and "SongUnrecognized K \<noteq> SongNowPlaying K"
    and "SongUnrecognized K \<noteq> SongScrobbled K"
  shows "processControllerEvent K ext ctrl (SongUnrecognized K) =
     Inr (ext\<lparr>calls := calls ext @
            [ConsoleLog ''2222'',
             ShowSongNotRecognized (getCurrentSong ctrl) (OpenTab (tabId ctrl))]\<rparr>)"
  using assms by (simp add: processControllerEvent_def call_def)

theorem unrecognized_shows_not_recognized_witness:
  "SongUnrecognized K0 \<noteq> ControllerReset K0 \<and> SongUnrecognized K0 \<noteq> SongNowPlaying K0 \<and>
   SongUnrecognized K0 \<noteq> SongScrobbled K0 \<and>
   processControllerEvent K0 ext0 ctrl0 3 =
     Inr (ext0\<lparr>calls := [ConsoleLog ''2222'', ShowSongNotRecognized (Some song0) (OpenTab 7)]\<rparr>)"
  using unrecognized_shows_not_recognized [of K0 ext0 ctrl0]
  by (simp add: K0_def ext0_def ctrl0_def newExtension_def)

text \<open>
  C7.  For an event that is none of the four constants, no case of the \<^verbatim>\<open>switch\<close>
  is run: the extension, with its log of calls, is returned unchanged and nothing is
  thrown.
\<close>

theorem other_events_change_nothing:
  assumes "event \<notin> {ControllerReset K, SongNowPlaying K, SongScrobbled K, SongUnrecognized K}"
  shows "processControllerEvent K ext ctrl event = Inr ext"
  using assms by (simp add: processControllerEvent_def)

theorem other_events_change_nothing_witness:
  "4 \<notin> {ControllerReset K0, SongNowPlaying K0, SongScrobbled K0, SongUnrecognized K0} \<and>
   processControllerEvent K0 ext0 ctrl0 4 = Inr ext0"
  using other_events_change_nothing [of 4 K0 ext0 ctrl0]
  by (simp add: K0_def)

text \<open>
  C10.  \<^verbatim>\<open>setSessionActive\<close> is idempotent.  The first call, on a session that is not
  active, sets \<^verbatim>\<open>isSessionActive\<close> and sends exactly one page view
  \<^verbatim>\<open>/background-injected?version=...\<close>; a call on an active session changes nothing
  and sends nothing; any number of calls in a row equals a single call.
\<close>

theorem setSessionActive_idempotent:
  "setSessionActive (setSessionActive ext) = setSessionActive ext \<and>
   setSessionActive (ext\<lparr>isSessionActive := False\<rparr>) =
     ext\<lparr>isSessionActive := True,
         calls := calls ext @ [GAPageview (''/background-injected?version='' @ extVersion ext)]\<rparr> \<and>
   setSessionActive (ext\<lparr>isSessionActive := True\<rparr>) = ext\<lparr>isSessionActive := True\<rparr> \<and>
   (setSessionActive ^^ Suc n) ext = setSessionActive ext"
proof -
  have idem: "setSessionActive (setSessionActive e) = setSessionActive e" for e
    by (simp add: setSessionActive_def call_def)
  have "(setSessionActive ^^ Suc n) ext = setSessionActive ext"
    by (induction n) (simp_all add: idem)
  then show ?thesis
    by (simp add: idem) (simp add: setSessionActive_def call_def)
qed

subsection \<open>The authentication notification\<close>













subsection \<open>The tab registry\<close>

text \<open>
  C3.  When a tab is closed, \<^verbatim>\<open>browser.tabs.onRemoved\<close> hands its identifier to the
  tab worker, which detaches the machine of that tab.  If the machine has a current item
  (terminal or not), exactly one event is emitted for it, a reset, while the machine is
  still registered; the extension answers it by clearing the now-playing notification of
  that item; then the machine is destroyed, so the tab has no machine afterwards.
\<close>

theorem tab_close_emits_one_reset:
  assumes "tabControllers (tabWorker ext) tab = Some ctrl"
    and "getCurrentSong ctrl = Some item"
  shows "emittedOnDetach K ctrl = [ControllerReset K] \<and>
     tabs_onRemoved K ext tab =
       Inr (destroy tab (ext\<lparr>calls := calls ext @ [ClearNowPlaying item]\<rparr>)) \<and>
     tabControllers (tabWorker (destroy tab (ext\<lparr>calls := calls ext @ [ClearNowPlaying item]\<rparr>))) tab = None"
  using assms
  by (simp add: tabs_onRemoved_def processTabRemove_def detach_def emittedOnDetach_def
      onControllerEvent_def processControllerEvent_def call_def destroy_def)

theorem tab_close_emits_one_reset_witness:
  "tabControllers (tabWorker ext1) 7 = Some ctrl0 \<and> getCurrentSong ctrl0 = Some song0 \<and>
   emittedOnDetach K0 ctrl0 = [0] \<and>
   tabs_onRemoved K0 ext1 7 = Inr (ext0\<lparr>calls := [ClearNowPlaying song0]\<rparr>)"
  using tab_close_emits_one_reset [of ext1 7 ctrl0 song0 K0]
  by (simp add: ext1_def ext0_def ctrl0_def K0_def newExtension_def destroy_def)

text \<open>
  C4.  A message (a sample or a command) addressed to a tab that has no registered machine
  is dropped: nothing is thrown and the extension, with its registry, its storages and its
  log of calls, is unchanged.
\<close>

theorem unknown_tab_routing_is_noop:
  assumes "tabControllers (tabWorker ext) (request_tabId request) = None"
  shows "runtime_onMessage K machine ext request = Inr ext"
  using assms by (simp add: runtime_onMessage_def processMessage_def route_def)

theorem unknown_tab_routing_is_noop_witness:
  "tabControllers (tabWorker ext1) 8 = None \<and>
   runtime_onMessage K0 idle ext1
     \<lparr>request_tabId = 8, request_type = ''REQUEST_SKIP_SONG'', request_data = ()\<rparr> = Inr ext1"
  using unknown_tab_routing_is_noop
    [of ext1 "\<lparr>request_tabId = 8, request_type = ''REQUEST_SKIP_SONG'', request_data = ()\<rparr>" K0 idle]
  by (simp add: ext1_def)

subsection \<open>The Google Play connector\<close>

text \<open>
  C1, as stated, fails.  The claim is that \<^verbatim>\<open>isScrobblingAllowed\<close> is false for every
  sample whose artist or track title contains a denylisted substring.  The connector
  compares the artist, and only the artist, for equality with the ad placeholder: a sample
  with the placeholder as its track title, and a sample whose artist merely contains the
  placeholder, are both allowed.
\<close>

theorem isScrobblingAllowed_denylisted_counterexample:
  "denylisted [adPlaceholder] adInTrack \<and> isScrobblingAllowed adInTrack \<and>
   denylisted [adPlaceholder] adInsideArtist \<and> isScrobblingAllowed adInsideArtist"
  by (simp add: denylisted_def includes_str_def adPlaceholder_def adInTrack_def
      adInsideArtist_def isScrobblingAllowed_def sublist_code prefix_code)

text \<open>
  C1, amended.  \<^verbatim>\<open>isScrobblingAllowed\<close> is false exactly for the samples whose artist
  is equal to the ad placeholder \<^verbatim>\<open>Subscribe to go ad-free\<close>; each of them is a sample
  that contains the denylisted substring.
\<close>

theorem isScrobblingAllowed_false_iff_placeholder_artist:
  "(\<not> isScrobblingAllowed sample \<longleftrightarrow> getArtist sample = Some adPlaceholder) \<and>
   (\<not> isScrobblingAllowed sample \<longrightarrow> denylisted [adPlaceholder] sample)"
  by (auto simp: isScrobblingAllowed_def adPlaceholder_def denylisted_def includes_str_def)

theorem isScrobblingAllowed_false_iff_placeholder_artist_witness:
  "\<not> isScrobblingAllowed adAsArtist \<and> getArtist adAsArtist = Some adPlaceholder \<and>
   denylisted [adPlaceholder] adAsArtist"
  using isScrobblingAllowed_false_iff_placeholder_artist [of adAsArtist]
  by (simp add: adAsArtist_def adPlaceholder_def)

end
